theory Spec2Isabelle
  imports Main "HOL-Library.Sublist"
begin

section \<open>JavaScript values used by \<open>src/index.ts\<close>\<close>

text \<open>
  A JavaScript string is a sequence of code units; it is modelled as a \<^typ>\<open>string\<close>, one
  \<^typ>\<open>char\<close> per code unit. The regular expressions and separators of the source only
  mention ASCII characters, and they are applied without the \<open>u\<close>, \<open>i\<close>, \<open>g\<close> or \<open>m\<close>
  flags, so every test the code makes is an equality or a range test on single code units.

  A value that may be \<open>undefined\<close> is an \<^typ>\<open>'a option\<close>, with \<^const>\<open>None\<close> for
  \<open>undefined\<close>. A thrown exception is a value of type \<open>error\<close>: \<open>new Error(msg)\<close> keeps its
  message, a \<open>TypeError\<close> raised by the engine itself has an engine-specific message that
  is not modelled.
\<close>

datatype error = Error string | TypeError

text \<open>\<open>xs[i]\<close>: reading an array out of range yields \<open>undefined\<close>, it does not throw.\<close>

definition js_index :: "'a list \<Rightarrow> nat \<Rightarrow> 'a option" where
  "js_index xs i = (if i < length xs then Some (xs ! i) else None)"

text \<open>
  \<open>a || b\<close> on values that are strings or \<open>undefined\<close>: \<open>undefined\<close> and the empty string
  are falsy, every other string is truthy.
\<close>

definition truthy :: "string option \<Rightarrow> bool" where
  "truthy v = (case v of None \<Rightarrow> False | Some s \<Rightarrow> s \<noteq> [])"

definition js_or :: "string option \<Rightarrow> string option \<Rightarrow> string option" where
  "js_or a b = (if truthy a then a else b)"

text \<open>\<open>s.startsWith(p)\<close>, the test made at one position by a literal pattern.\<close>

fun starts_with :: "string \<Rightarrow> string \<Rightarrow> bool" where
  "starts_with [] s = True"
| "starts_with (p # ps) [] = False"
| "starts_with (p # ps) (c # cs) = (p = c \<and> starts_with ps cs)"

text \<open>
  \<open>s.split(sep)\<close> with a string separator (ECMAScript \<open>String.prototype.split\<close>): the input
  is scanned from the left, every occurrence of the separator closes the current part and
  the scan resumes behind it; the rest of the input is the last part. The empty separator
  splits into single code units. \<open>split_from sep cur rest\<close> is the scan with \<open>cur\<close> the code
  units of the part being read and \<open>rest\<close> the input not yet read.
\<close>

function split_from :: "string \<Rightarrow> string \<Rightarrow> string \<Rightarrow> string list" where
  "split_from sep cur [] = [cur]"
| "split_from sep cur (c # cs) =
     (if sep \<noteq> [] \<and> starts_with sep (c # cs)
      then cur # split_from sep [] (drop (length sep) (c # cs))
      else split_from sep (cur @ [c]) cs)"
  by pat_completeness auto
termination
  by (relation "measure (\<lambda>(sep, cur, rest). length rest)") auto

definition split_js :: "string \<Rightarrow> string \<Rightarrow> string list" where
  "split_js s sep = (if sep = [] then map (\<lambda>c. [c]) s else split_from sep [] s)"

section \<open>Product identifier extraction\<close>

text \<open>The character class \<open>[A-Z0-9]\<close>.\<close>

definition is_asin_char :: "char \<Rightarrow> bool" where
  "is_asin_char c =
     (let n = (of_char c :: nat) in (65 \<le> n \<and> n \<le> 90) \<or> (48 \<le> n \<and> n \<le> 57))"

text \<open>
  The two regular expressions of \<open>extractAmazonProductId\<close>,
  \<open>/\/dp\/([A-Z0-9]{10})(\/|\?|$)/\<close> and \<open>/\/gp\/product\/([A-Z0-9]{10})(\/|\?|$)/\<close>,
  differ in their literal prefix only. \<open>match_here marker s\<close> is the attempt to match at the
  start of \<open>s\<close>: the literal, exactly ten characters of the class, then \<open>/\<close>, \<open>?\<close> or the
  end of the input. It returns capture group 1.
\<close>

definition match_here :: "string \<Rightarrow> string \<Rightarrow> string option" where
  "match_here marker s =
     (if starts_with marker s
      then (let rest = drop (length marker) s; asin = take 10 rest; after = drop 10 rest
            in if length asin = 10 \<and> list_all is_asin_char asin \<and>
                  (case after of [] \<Rightarrow> True | c # _ \<Rightarrow> c = CHR ''/'' \<or> c = CHR ''?'')
               then Some asin else None)
      else None)"

text \<open>
  \<open>s.match(re)\<close> for a regular expression without the \<open>g\<close> flag: the match is attempted at
  position 0, 1, ... up to the end of the input, and the first position that matches wins.
\<close>

fun regex_match :: "string \<Rightarrow> string \<Rightarrow> string option" where
  "regex_match marker [] = match_here marker []"
| "regex_match marker (c # cs) =
     (case match_here marker (c # cs) of
        Some asin \<Rightarrow> Some asin
      | None \<Rightarrow> regex_match marker cs)"

definition extractAmazonProductId :: "string \<Rightarrow> error + string" where
  "extractAmazonProductId amazonUrl =
     (let dpMatch = regex_match ''/dp/'' amazonUrl;
          gpMatch = regex_match ''/gp/product/'' amazonUrl;
          asin = js_or dpMatch gpMatch
      in if \<not> truthy asin
         then Inl (Error ''Could not extract product ID from Amazon URL'')
         else (case asin of Some a \<Rightarrow> Inr a
               | None \<Rightarrow> Inl (Error ''Could not extract product ID from Amazon URL'')))"

definition formatProductLocator :: "string \<Rightarrow> string" where
  "formatProductLocator productId = ''amazon:'' @ productId"

section \<open>The purchase request\<close>

record purchaseInfo =
  info_name :: string
  shippingAddress :: string
  info_email :: string

record physicalAddress =
  name :: string
  line1 :: "string option"
  city :: "string option"
  state :: "string option"
  postalCode :: "string option"
  country :: string

record recipient =
  email :: string
  physicalAddress :: physicalAddress

text \<open>
  \<open>purchaseProduct\<close> builds a payment block without the members \<open>chain\<close> and
  \<open>tokenAddress\<close>; \<open>handleAmazonPurchase\<close> sets both. An absent member is \<^const>\<open>None\<close>.
\<close>

record payment =
  "method" :: string
  currency :: string
  payerAddress :: string
  chain :: "string option"
  tokenAddress :: "string option"

record lineItem =
  productLocator :: string

record purchase_request =
  recipient :: recipient
  payment :: payment
  lineItems :: "lineItem list"

section \<open>The external checkout tools\<close>

text \<open>
  The tools come from the GOAT SDK and are not part of the repository; they are
  parameters of the model. A tool is given by what it answers to a request: \<open>invoke\<close> is
  the call \<open>tool(request)\<close> made by \<open>purchaseProduct\<close>, \<open>execute\<close> the call
  \<open>tool.execute(request, { messages: [] })\<close> made by \<open>handleAmazonPurchase\<close>. Either may
  throw or reject (\<^const>\<open>Inl\<close>, which covers the \<open>TypeError\<close> of calling something that is
  not a function) or return a value, \<^const>\<open>None\<close> standing for \<open>null\<close> and \<open>undefined\<close>.
  What a tool throws is taken to be an \<open>Error\<close> object.

  The \<open>tools\<close> argument itself is untyped in the source: it may be \<open>null\<close> or \<open>undefined\<close>,
  a value that is not an object, or an object, given by its own enumerable properties
  in order.
\<close>

record 'o tool =
  invoke :: "purchase_request \<Rightarrow> error + 'o option"
  execute :: "purchase_request \<Rightarrow> error + 'o option"

datatype 'o js_tools =
  Nullish
| NonObject
| Object "(string \<times> 'o tool) list"

section \<open>Building and sending the request\<close>

text \<open>
  Both functions return their result, an exception as \<^const>\<open>Inl\<close>, together with the list
  of requests handed to the \<open>buy_token\<close> tool, in order. Console output is not modelled.

  \<open>purchaseProduct\<close> checks the address, then the country, then the tools. Its guard
  \<open>!tools || typeof tools !== 'object' || !Object.keys(tools).includes('buy_token')\<close> first
  logs \<open>Object.keys(tools)\<close>, which throws a \<open>TypeError\<close> when \<open>tools\<close> is \<open>null\<close> or
  \<open>undefined\<close>; for every other value without the property the \<open>Error\<close> of the guard is
  thrown.
\<close>

definition purchaseProduct ::
  "'o js_tools \<Rightarrow> string \<Rightarrow> string \<Rightarrow> purchaseInfo \<Rightarrow> (error + 'o option) \<times> purchase_request list"
where
  "purchaseProduct tools productId walletAddress purchaseInfo =
     (let addressParts = split_js (shippingAddress purchaseInfo) '', '' in
      if length addressParts < 4
      then (Inl (Error ''Invalid shipping address format. Expected: Name, Street, City, State ZIP, Country''), [])
      else
        let street = js_index addressParts 1;
            city = js_index addressParts 2;
            stateZip = split_js (addressParts ! 3) '' '';
            state = js_index stateZip 0;
            postalCode = js_index stateZip 1;
            country = js_or (js_index addressParts 4) (Some ''US'')
        in
        if country \<noteq> Some ''US''
        then (Inl (Error ''Only US shipping addresses are currently supported''), [])
        else
          (case tools of
             Nullish \<Rightarrow> (Inl TypeError, [])
           | NonObject \<Rightarrow>
               (Inl (Error ''buy_token tool not available. Please check the plugin configuration.''), [])
           | Object props \<Rightarrow>
               (case map_of props ''buy_token'' of
                  None \<Rightarrow>
                    (Inl (Error ''buy_token tool not available. Please check the plugin configuration.''), [])
                | Some buy_token \<Rightarrow>
                    (let request =
                       \<lparr> recipient =
                           \<lparr> email = info_email purchaseInfo,
                             physicalAddress =
                               \<lparr> name = info_name purchaseInfo,
                                 line1 = street,
                                 city = city,
                                 state = state,
                                 postalCode = postalCode,
                                 country = ''US'' \<rparr> \<rparr>,
                         payment =
                           \<lparr> method = ''base'',
                             currency = ''usdc'',
                             payerAddress = walletAddress,
                             chain = None,
                             tokenAddress = None \<rparr>,
                         lineItems = [\<lparr> productLocator = formatProductLocator productId \<rparr>] \<rparr>
                     in (invoke buy_token request, [request])))))"

text \<open>
  \<open>handleAmazonPurchase\<close> first awaits \<open>initializeGoatTools()\<close>, which is external: its
  outcome \<open>init\<close>, an exception or the pair of the tools and the wallet address, is a
  parameter. The function does not test the parsed country. The order returned by the
  tool is read (\<open>order.id\<close>) inside the \<open>try\<close> block, which throws a \<open>TypeError\<close> on \<open>null\<close>
  and \<open>undefined\<close>; the \<open>catch\<close> block only logs and throws the same exception again.
\<close>

definition handleAmazonPurchase ::
  "(error + 'o js_tools \<times> string) \<Rightarrow> string \<Rightarrow> purchaseInfo \<Rightarrow> (error + 'o) \<times> purchase_request list"
where
  "handleAmazonPurchase init amazonUrl purchaseInfo =
     (case init of
        Inl e \<Rightarrow> (Inl e, [])
      | Inr (tools, walletAddress) \<Rightarrow>
     (case extractAmazonProductId amazonUrl of
        Inl e \<Rightarrow> (Inl e, [])
      | Inr productId \<Rightarrow>
     (let productLocator = formatProductLocator productId;
          addressParts = split_js (shippingAddress purchaseInfo) '', '' in
      if length addressParts < 4
      then (Inl (Error ''Invalid shipping address format. Expected: Name, Street, City, State ZIP, Country''), [])
      else
        let street = js_index addressParts 1;
            city = js_index addressParts 2;
            stateZip = split_js (addressParts ! 3) '' '';
            state = js_index stateZip 0;
            postalCode = js_index stateZip 1;
            country = js_or (js_index addressParts 4) (Some ''US'');
            purchaseParams =
              \<lparr> recipient =
                  \<lparr> email = info_email purchaseInfo,
                    physicalAddress =
                      \<lparr> name = info_name purchaseInfo,
                        line1 = street,
                        city = city,
                        state = state,
                        postalCode = postalCode,
                        country = ''US'' \<rparr> \<rparr>,
                payment =
                  \<lparr> method = ''base'',
                    currency = ''usdc'',
                    payerAddress = walletAddress,
                    chain = Some ''base'',
                    tokenAddress = Some ''0x833589fCD6eDb6E08f4c7C32D4f71b54bdA02913'' \<rparr>,
                lineItems = [\<lparr> productLocator = productLocator \<rparr>] \<rparr>
        in
        (case tools of
           Nullish \<Rightarrow> (Inl (Error ''Tools not properly initialized''), [])
         | NonObject \<Rightarrow> (Inl (Error ''Tools not properly initialized''), [])
         | Object props \<Rightarrow>
             (case map_of props ''buy_token'' of
                None \<Rightarrow> (Inl (Error ''buy_token tool not found in the available tools''), [])
              | Some buyTokenTool \<Rightarrow>
                  (case execute buyTokenTool purchaseParams of
                     Inl e \<Rightarrow> (Inl e, [purchaseParams])
                   | Inr None \<Rightarrow> (Inl TypeError, [purchaseParams])
                   | Inr (Some order) \<Rightarrow> (Inr order, [purchaseParams])))))))"

section \<open>What the specification says about product URLs\<close>

text \<open>
  The specification speaks of a segment of ten uppercase letters or digits that stands
  immediately behind a path marker and is followed by \<open>/\<close>, \<open>?\<close> or the end of the URL.
  The definitions of this section follow those words, independently of the matcher above:
  \<open>occurs_at marker url n seg\<close> says that the marker starts at position \<open>n\<close> of the URL and
  is followed by the segment, and \<open>first_occurrence\<close> picks the leftmost position.
\<close>

definition asin_alphabet :: "char set" where
  "asin_alphabet = set ''ABCDEFGHIJKLMNOPQRSTUVWXYZ0123456789''"

definition asin_segment :: "string \<Rightarrow> string \<Rightarrow> bool" where
  "asin_segment seg post \<longleftrightarrow>
     length seg = 10 \<and> set seg \<subseteq> asin_alphabet \<and>
     (post = [] \<or> hd post = CHR ''/'' \<or> hd post = CHR ''?'')"

definition occurs_at :: "string \<Rightarrow> string \<Rightarrow> nat \<Rightarrow> string \<Rightarrow> bool" where
  "occurs_at marker url n seg \<longleftrightarrow>
     (\<exists>pre post. url = pre @ marker @ seg @ post \<and> length pre = n \<and> asin_segment seg post)"

definition has_occurrence :: "string \<Rightarrow> string \<Rightarrow> bool" where
  "has_occurrence marker url \<longleftrightarrow> (\<exists>n seg. occurs_at marker url n seg)"

definition first_occurrence :: "string \<Rightarrow> string \<Rightarrow> string \<Rightarrow> bool" where
  "first_occurrence marker url seg \<longleftrightarrow>
     (\<exists>n. occurs_at marker url n seg \<and> (\<forall>k seg'. occurs_at marker url k seg' \<longrightarrow> n \<le> k))"

section \<open>Concrete inputs\<close>

text \<open>
  \<open>userInfo\<close> and \<open>amazonUrl\<close> are the constants of \<open>src/test.ts\<close>. \<open>demo_tools\<close> stands for
  the external tools in the concrete evaluations: an object with the properties
  \<open>get_balance\<close> and \<open>buy_token\<close>, whose tools answer every request with the order
  \<open>''order''\<close>.
\<close>

definition userInfo :: purchaseInfo where
  "userInfo =
     \<lparr> info_name = ''Joyce Lee'',
       shippingAddress = ''Joyce Lee, 1 SE 3rd Ave, Miami, FL 33131, US'',
       info_email = ''crossmintdemo@gmail.com'' \<rparr>"

definition amazonUrl :: string where
  "amazonUrl = ''https://www.amazon.com/dp/B0CJCK8LCJ/ref=twister_B0D3TK8MMP''"

definition demo_tool :: "string tool" where
  "demo_tool =
     \<lparr> invoke = (\<lambda>request. Inr (Some ''order'')),
       execute = (\<lambda>request. Inr (Some ''order'')) \<rparr>"

definition demo_tools :: "string js_tools" where
  "demo_tools = Object [(''get_balance'', demo_tool), (''buy_token'', demo_tool)]"

section \<open>The matcher finds the leftmost occurrence\<close>

lemma is_asin_char_alphabet: "is_asin_char c \<longleftrightarrow> c \<in> asin_alphabet"
  by (cases c) (simp add: is_asin_char_def asin_alphabet_def)

lemma list_all_alphabet: "list_all is_asin_char xs \<longleftrightarrow> set xs \<subseteq> asin_alphabet"
  by (auto simp: list_all_iff is_asin_char_alphabet)

lemma starts_with_prefix: "starts_with p s \<longleftrightarrow> prefix p s"
  by (induction p s rule: starts_with.induct) simp_all

lemma match_here_occurs: "match_here marker s = Some seg \<longleftrightarrow> occurs_at marker s 0 seg"
proof
  assume m: "match_here marker s = Some seg"
  then have "prefix marker s"
    by (simp add: match_here_def starts_with_prefix split: if_splits)
  then obtain rest where s: "s = marker @ rest"
    by (auto simp: prefix_def)
  from m s have seg: "seg = take 10 rest" and len: "length (take 10 rest) = 10"
    and cls: "list_all is_asin_char (take 10 rest)"
    and aft: "(case drop 10 rest of [] \<Rightarrow> True | c # _ \<Rightarrow> c = CHR ''/'' \<or> c = CHR ''?'')"
    by (auto simp: match_here_def starts_with_prefix Let_def split: if_splits)
  have "s = [] @ marker @ seg @ drop 10 rest"
    using s seg by simp
  moreover have "asin_segment seg (drop 10 rest)"
    using seg len cls aft by (auto simp: asin_segment_def list_all_alphabet split: list.splits)
  ultimately show "occurs_at marker s 0 seg"
    unfolding occurs_at_def by blast
next
  assume "occurs_at marker s 0 seg"
  then obtain post where "s = marker @ seg @ post" and "asin_segment seg post"
    by (auto simp: occurs_at_def)
  then show "match_here marker s = Some seg"
    by (auto simp: match_here_def starts_with_prefix Let_def asin_segment_def list_all_alphabet
        split: list.splits)
qed

lemma occurs_at_unique:
  assumes "occurs_at marker s n seg" and "occurs_at marker s n seg'"
  shows "seg = seg'"
proof -
  from assms obtain pre post pre' post' where
    e: "pre @ marker @ seg @ post = pre' @ marker @ seg' @ post'"
    and l: "length pre = length pre'" and s: "length seg = 10" "length seg' = 10"
    unfolding occurs_at_def asin_segment_def by metis
  from e l have "marker @ seg @ post = marker @ seg' @ post'"
    by simp
  then have "seg @ post = seg' @ post'"
    by simp
  with s show ?thesis
    by simp
qed

lemma occurs_at_Nil: "occurs_at marker [] n seg \<Longrightarrow> n = 0"
  by (auto simp: occurs_at_def)

lemma occurs_at_Suc: "occurs_at marker (c # cs) (Suc n) seg \<longleftrightarrow> occurs_at marker cs n seg"
proof
  assume "occurs_at marker (c # cs) (Suc n) seg"
  then obtain pre post where e: "c # cs = pre @ marker @ seg @ post" and l: "length pre = Suc n"
    and a: "asin_segment seg post"
    by (auto simp: occurs_at_def)
  from l obtain x pre' where "pre = x # pre'" and "length pre' = n"
    by (cases pre) auto
  with e a show "occurs_at marker cs n seg"
    by (auto simp: occurs_at_def)
next
  assume "occurs_at marker cs n seg"
  then obtain pre post where "cs = pre @ marker @ seg @ post" "length pre = n" "asin_segment seg post"
    by (auto simp: occurs_at_def)
  then have "c # cs = (c # pre) @ marker @ seg @ post \<and> length (c # pre) = Suc n \<and>
      asin_segment seg post"
    by simp
  then show "occurs_at marker (c # cs) (Suc n) seg"
    unfolding occurs_at_def by blast
qed

lemma regex_match_None: "regex_match marker url = None \<longleftrightarrow> \<not> has_occurrence marker url"
proof (induction url)
  case Nil
  show ?case
    using occurs_at_Nil [of marker] match_here_occurs [of marker "[]"]
    by (fastforce simp: has_occurrence_def)
next
  case (Cons c cs)
  show ?case
  proof (cases "match_here marker (c # cs)")
    case (Some a)
    then have "occurs_at marker (c # cs) 0 a"
      by (simp add: match_here_occurs)
    with Some show ?thesis
      by (auto simp: has_occurrence_def)
  next
    case None
    then have no0: "\<And>seg. \<not> occurs_at marker (c # cs) 0 seg"
      by (simp add: match_here_occurs [symmetric])
    have "has_occurrence marker (c # cs) \<longleftrightarrow> has_occurrence marker cs"
    proof
      assume "has_occurrence marker (c # cs)"
      then obtain n seg where o: "occurs_at marker (c # cs) n seg"
        by (auto simp: has_occurrence_def)
      with no0 obtain n' where "n = Suc n'"
        by (cases n) auto
      with o show "has_occurrence marker cs"
        by (auto simp: occurs_at_Suc has_occurrence_def)
    next
      assume "has_occurrence marker cs"
      then show "has_occurrence marker (c # cs)"
        unfolding has_occurrence_def using occurs_at_Suc by blast
    qed
    with None Cons show ?thesis
      by simp
  qed
qed

lemma regex_match_Some: "regex_match marker url = Some seg \<longleftrightarrow> first_occurrence marker url seg"
proof (induction url)
  case Nil
  have "first_occurrence marker [] seg \<longleftrightarrow> occurs_at marker [] 0 seg"
    unfolding first_occurrence_def using occurs_at_Nil [of marker] by (metis le0)
  then show ?case
    by (simp add: match_here_occurs)
next
  case (Cons c cs)
  show ?case
  proof (cases "match_here marker (c # cs)")
    case (Some a)
    then have o: "occurs_at marker (c # cs) 0 a"
      by (simp add: match_here_occurs)
    have "first_occurrence marker (c # cs) seg \<longleftrightarrow> seg = a"
    proof
      assume "first_occurrence marker (c # cs) seg"
      then obtain n where n: "occurs_at marker (c # cs) n seg"
        and least: "\<And>k seg'. occurs_at marker (c # cs) k seg' \<Longrightarrow> n \<le> k"
        by (auto simp: first_occurrence_def)
      from least [OF o] have "n = 0" by simp
      with n o show "seg = a"
        by (auto dest: occurs_at_unique)
    next
      assume "seg = a"
      with o show "first_occurrence marker (c # cs) seg"
        unfolding first_occurrence_def by (intro exI [of _ 0]) simp
    qed
    with Some show ?thesis
      by auto
  next
    case None
    then have no0: "\<And>seg. \<not> occurs_at marker (c # cs) 0 seg"
      by (simp add: match_here_occurs [symmetric])
    have "first_occurrence marker (c # cs) seg \<longleftrightarrow> first_occurrence marker cs seg"
    proof
      assume "first_occurrence marker (c # cs) seg"
      then obtain n where n: "occurs_at marker (c # cs) n seg"
        and least: "\<And>k seg'. occurs_at marker (c # cs) k seg' \<Longrightarrow> n \<le> k"
        by (auto simp: first_occurrence_def)
      from n no0 obtain n' where n': "n = Suc n'"
        by (cases n) auto
      have "occurs_at marker cs n' seg"
        using n n' by (simp add: occurs_at_Suc)
      moreover have "n' \<le> k" if "occurs_at marker cs k seg'" for k seg'
        using least [of "Suc k" seg'] that n' by (simp add: occurs_at_Suc)
      ultimately show "first_occurrence marker cs seg"
        unfolding first_occurrence_def by blast
    next
      assume "first_occurrence marker cs seg"
      then obtain n where n: "occurs_at marker cs n seg"
        and least: "\<And>k seg'. occurs_at marker cs k seg' \<Longrightarrow> n \<le> k"
        by (auto simp: first_occurrence_def)
      have "occurs_at marker (c # cs) (Suc n) seg"
        using n by (simp add: occurs_at_Suc)
      moreover have "Suc n \<le> k" if k: "occurs_at marker (c # cs) k seg'" for k seg'
      proof (cases k)
        case 0
        with k no0 show ?thesis by simp
      next
        case (Suc k')
        with k least [of k' seg'] show ?thesis
          by (simp add: occurs_at_Suc)
      qed
      ultimately show "first_occurrence marker (c # cs) seg"
        unfolding first_occurrence_def by blast
    qed
    with None Cons show ?thesis
      by simp
  qed
qed

lemma first_occurrence_has: "first_occurrence marker url seg \<Longrightarrow> has_occurrence marker url"
  by (auto simp: first_occurrence_def has_occurrence_def)

lemma first_occurrence_nonempty: "first_occurrence marker url seg \<Longrightarrow> seg \<noteq> []"
  by (auto simp: first_occurrence_def occurs_at_def asin_segment_def)

text \<open>
  Claim C1. \<open>extractAmazonProductId\<close> returns a segment exactly when that segment is the
  one of the leftmost occurrence of the \<open>/dp/\<close> shape or, when the URL has no occurrence
  of the \<open>/dp/\<close> shape at all, the one of the leftmost occurrence of the \<open>/gp/product/\<close> shape.
  It fails exactly when the URL has an occurrence of neither shape, and then with the error
  \<open>Could not extract product ID from Amazon URL\<close>.
\<close>

theorem extractAmazonProductId_first_match:
  "(extractAmazonProductId url = Inr seg \<longleftrightarrow>
      first_occurrence ''/dp/'' url seg \<or>
      (\<not> has_occurrence ''/dp/'' url \<and> first_occurrence ''/gp/product/'' url seg)) \<and>
   (extractAmazonProductId url = Inl e \<longleftrightarrow>
      e = Error ''Could not extract product ID from Amazon URL'' \<and>
      \<not> has_occurrence ''/dp/'' url \<and> \<not> has_occurrence ''/gp/product/'' url)"
proof (cases "regex_match ''/dp/'' url")
  case None
  note dp = None
  then have nodp: "\<not> has_occurrence ''/dp/'' url"
    by (simp add: regex_match_None)
  then have nofirst: "\<And>s. \<not> first_occurrence ''/dp/'' url s"
    by (auto dest: first_occurrence_has)
  show ?thesis
  proof (cases "regex_match ''/gp/product/'' url")
    case None
    then have nogp: "\<not> has_occurrence ''/gp/product/'' url"
      by (simp add: regex_match_None)
    then have "\<And>s. \<not> first_occurrence ''/gp/product/'' url s"
      by (auto dest: first_occurrence_has)
    moreover have "extractAmazonProductId url =
        Inl (Error ''Could not extract product ID from Amazon URL'')"
      using dp None by (simp add: extractAmazonProductId_def js_or_def truthy_def)
    ultimately show ?thesis
      using nodp nogp nofirst by auto
  next
    case (Some a)
    then have fa: "first_occurrence ''/gp/product/'' url a"
      by (simp add: regex_match_Some)
    then have ne: "a \<noteq> []"
      by (rule first_occurrence_nonempty)
    have ex: "extractAmazonProductId url = Inr a"
      using dp Some ne by (simp add: extractAmazonProductId_def js_or_def truthy_def)
    have "first_occurrence ''/gp/product/'' url seg \<longleftrightarrow> seg = a"
      using Some by (auto simp: regex_match_Some [symmetric])
    with ex nodp nofirst first_occurrence_has [OF fa] show ?thesis
      by auto
  qed
next
  case (Some a)
  then have fa: "first_occurrence ''/dp/'' url a"
    by (simp add: regex_match_Some)
  then have ne: "a \<noteq> []"
    by (rule first_occurrence_nonempty)
  have ex: "extractAmazonProductId url = Inr a"
    using Some ne by (simp add: extractAmazonProductId_def js_or_def truthy_def)
  have "first_occurrence ''/dp/'' url seg \<longleftrightarrow> seg = a"
    using Some by (auto simp: regex_match_Some [symmetric])
  with ex first_occurrence_has [OF fa] show ?thesis
    by auto
qed

theorem extractAmazonProductId_first_match_witness:
  "extractAmazonProductId amazonUrl = Inr ''B0CJCK8LCJ'' \<and>
   first_occurrence ''/dp/'' amazonUrl ''B0CJCK8LCJ'' \<and>
   extractAmazonProductId ''https://www.amazon.com/dp/b0cjck8lcj'' =
     Inl (Error ''Could not extract product ID from Amazon URL'') \<and>
   \<not> has_occurrence ''/dp/'' ''https://www.amazon.com/dp/b0cjck8lcj'' \<and>
   \<not> has_occurrence ''/gp/product/'' ''https://www.amazon.com/dp/b0cjck8lcj''"
proof -
  have ex: "extractAmazonProductId amazonUrl = Inr ''B0CJCK8LCJ''"
    by (simp add: amazonUrl_def extractAmazonProductId_def match_here_def is_asin_char_def
        js_or_def truthy_def)
  have "amazonUrl = ''https://www.amazon.com'' @ ''/dp/'' @ ''B0CJCK8LCJ'' @ ''/ref=twister_B0D3TK8MMP'' \<and>
      length ''https://www.amazon.com'' = 22 \<and> asin_segment ''B0CJCK8LCJ'' ''/ref=twister_B0D3TK8MMP''"
    by (simp add: amazonUrl_def asin_segment_def asin_alphabet_def)
  then have "occurs_at ''/dp/'' amazonUrl 22 ''B0CJCK8LCJ''"
    unfolding occurs_at_def by blast
  then have has: "has_occurrence ''/dp/'' amazonUrl"
    unfolding has_occurrence_def by blast
  have fail: "extractAmazonProductId ''https://www.amazon.com/dp/b0cjck8lcj'' =
      Inl (Error ''Could not extract product ID from Amazon URL'')"
    by (simp add: extractAmazonProductId_def match_here_def is_asin_char_def js_or_def truthy_def)
  show ?thesis
    using ex has fail
      extractAmazonProductId_first_match [of amazonUrl "''B0CJCK8LCJ''"]
      extractAmazonProductId_first_match [of "''https://www.amazon.com/dp/b0cjck8lcj''" _
        "Error ''Could not extract product ID from Amazon URL''"]
    by simp
qed


section \<open>Splitting and the address gates\<close>

lemma split_from_not_Nil: "split_from sep cur rest \<noteq> []"
  by (induction sep cur rest rule: split_from.induct) simp_all

lemma split_js_not_Nil: "sep \<noteq> [] \<Longrightarrow> split_js s sep \<noteq> []"
  by (simp add: split_js_def split_from_not_Nil)

lemma split_from_no_separator: "c \<notin> set rest \<Longrightarrow> split_from [c] cur rest = [cur @ rest]"
  by (induction rest arbitrary: cur) auto

lemma split_js_no_separator: "c \<notin> set s \<Longrightarrow> split_js s [c] = [s]"
  by (simp add: split_js_def split_from_no_separator)

text \<open>
  Claim C2, as amended. When the fifth part of the shipping address is present, not empty
  and different from \<open>US\<close>, \<open>purchaseProduct\<close> fails with the error
  \<open>Only US shipping addresses are currently supported\<close> and hands no request to the tool,
  whatever the tools are. (An empty fifth part counts as absent; \<open>handleAmazonPurchase\<close>
  has no country gate.)
\<close>

theorem purchaseProduct_rejects_other_country:
  assumes "js_index (split_js (shippingAddress purchaseInfo) '', '') 4 = Some c"
    and "c \<noteq> []" and "c \<noteq> ''US''"
  shows "purchaseProduct tools productId walletAddress purchaseInfo =
           (Inl (Error ''Only US shipping addresses are currently supported''), [])"
proof -
  from assms(1) have "\<not> length (split_js (shippingAddress purchaseInfo) '', '') < 4"
    by (simp add: js_index_def split: if_splits)
  moreover have "js_or (js_index (split_js (shippingAddress purchaseInfo) '', '') 4) (Some ''US'') \<noteq>
      Some ''US''"
    using assms by (simp add: js_or_def truthy_def)
  ultimately show ?thesis
    by (simp add: purchaseProduct_def Let_def)
qed

theorem purchaseProduct_rejects_other_country_witness:
  "js_index (split_js ''Jane Doe, 1 Rd, Town, CA 12345, FR'' '', '') 4 = Some ''FR'' \<and>
   purchaseProduct demo_tools ''B08SVZ775L'' ''0xPAYER''
     \<lparr> info_name = ''Jane Doe'', shippingAddress = ''Jane Doe, 1 Rd, Town, CA 12345, FR'',
       info_email = ''jane@example.com'' \<rparr> =
   (Inl (Error ''Only US shipping addresses are currently supported''), [])"
proof -
  have h: "js_index (split_js (shippingAddress
      \<lparr> info_name = ''Jane Doe'', shippingAddress = ''Jane Doe, 1 Rd, Town, CA 12345, FR'',
        info_email = ''jane@example.com'' \<rparr>) '', '') 4 = Some ''FR''"
    by (simp add: split_js_def js_index_def)
  have "''FR'' \<noteq> []" and "''FR'' \<noteq> ''US''"
    by simp_all
  from purchaseProduct_rejects_other_country [OF h this] h show ?thesis
    by simp
qed

text \<open>
  Claim C2 as stated fails. \<open>handleAmazonPurchase\<close> sends a request for an address whose
  fifth part is \<open>FR\<close>, and \<open>purchaseProduct\<close> sends one for an address whose fifth part is
  present and empty.
\<close>

theorem country_gate_counterexample:
  "handleAmazonPurchase (Inr (demo_tools, ''0xPAYER'')) ''https://www.amazon.com/dp/B08SVZ775L''
     \<lparr> info_name = ''Jane Doe'', shippingAddress = ''Jane Doe, 1 Rd, Town, CA 12345, FR'',
       info_email = ''jane@example.com'' \<rparr> =
   (Inr ''order'',
    [\<lparr> recipient =
         \<lparr> email = ''jane@example.com'',
           physicalAddress =
             \<lparr> name = ''Jane Doe'', line1 = Some ''1 Rd'', city = Some ''Town'', state = Some ''CA'',
               postalCode = Some ''12345'', country = ''US'' \<rparr> \<rparr>,
       payment =
         \<lparr> method = ''base'', currency = ''usdc'', payerAddress = ''0xPAYER'', chain = Some ''base'',
           tokenAddress = Some ''0x833589fCD6eDb6E08f4c7C32D4f71b54bdA02913'' \<rparr>,
       lineItems = [\<lparr> productLocator = ''amazon:B08SVZ775L'' \<rparr>] \<rparr>]) \<and>
   js_index (split_js ''Jane Doe, 1 Rd, Town, CA 12345, FR'' '', '') 4 = Some ''FR'' \<and>
   fst (purchaseProduct demo_tools ''B08SVZ775L'' ''0xPAYER''
     \<lparr> info_name = ''Jane Doe'', shippingAddress = ''Jane Doe, 1 Rd, Town, CA 12345, '',
       info_email = ''jane@example.com'' \<rparr>) = Inr (Some ''order'') \<and>
   length (snd (purchaseProduct demo_tools ''B08SVZ775L'' ''0xPAYER''
     \<lparr> info_name = ''Jane Doe'', shippingAddress = ''Jane Doe, 1 Rd, Town, CA 12345, '',
       info_email = ''jane@example.com'' \<rparr>)) = 1 \<and>
   js_index (split_js ''Jane Doe, 1 Rd, Town, CA 12345, '' '', '') 4 = Some []"
  by (simp add: handleAmazonPurchase_def purchaseProduct_def Let_def extractAmazonProductId_def
      match_here_def is_asin_char_def js_or_def truthy_def formatProductLocator_def
      split_js_def js_index_def demo_tools_def demo_tool_def)

text \<open>
  Claim C3, as amended. Every request handed to the tool has exactly one line item, the
  currency \<open>usdc\<close>, the payment method \<open>base\<close> and the country \<open>US\<close>. Its payment has the
  chain \<open>base\<close> when it comes from \<open>handleAmazonPurchase\<close> and no chain member when it
  comes from \<open>purchaseProduct\<close>.
\<close>

theorem emitted_request_constants:
  "(req \<in> set (snd (purchaseProduct tools productId walletAddress purchaseInfo)) \<longrightarrow>
      length (lineItems req) = 1 \<and> currency (payment req) = ''usdc'' \<and>
      method (payment req) = ''base'' \<and> chain (payment req) = None \<and>
      country (physicalAddress (recipient req)) = ''US'') \<and>
   (req' \<in> set (snd (handleAmazonPurchase init url purchaseInfo')) \<longrightarrow>
      length (lineItems req') = 1 \<and> currency (payment req') = ''usdc'' \<and>
      method (payment req') = ''base'' \<and> chain (payment req') = Some ''base'' \<and>
      country (physicalAddress (recipient req')) = ''US'')"
proof
  show "req \<in> set (snd (purchaseProduct tools productId walletAddress purchaseInfo)) \<longrightarrow>
      length (lineItems req) = 1 \<and> currency (payment req) = ''usdc'' \<and>
      method (payment req) = ''base'' \<and> chain (payment req) = None \<and>
      country (physicalAddress (recipient req)) = ''US''"
    by (auto simp: purchaseProduct_def Let_def split: if_splits js_tools.splits option.splits)
  show "req' \<in> set (snd (handleAmazonPurchase init url purchaseInfo')) \<longrightarrow>
      length (lineItems req') = 1 \<and> currency (payment req') = ''usdc'' \<and>
      method (payment req') = ''base'' \<and> chain (payment req') = Some ''base'' \<and>
      country (physicalAddress (recipient req')) = ''US''"
    by (auto simp: handleAmazonPurchase_def Let_def
        split: if_splits js_tools.splits option.splits sum.splits prod.splits)
qed

theorem emitted_request_constants_witness:
  "(\<exists>req. req \<in> set (snd (purchaseProduct demo_tools ''B0CJCK8LCJ'' ''0xPAYER'' userInfo)) \<and>
      length (lineItems req) = 1 \<and> currency (payment req) = ''usdc'' \<and>
      method (payment req) = ''base'' \<and> chain (payment req) = None \<and>
      country (physicalAddress (recipient req)) = ''US'') \<and>
   (\<exists>req. req \<in> set (snd (handleAmazonPurchase (Inr (demo_tools, ''0xPAYER'')) amazonUrl userInfo)) \<and>
      length (lineItems req) = 1 \<and> currency (payment req) = ''usdc'' \<and>
      method (payment req) = ''base'' \<and> chain (payment req) = Some ''base'' \<and>
      country (physicalAddress (recipient req)) = ''US'')"
proof -
  have "snd (purchaseProduct demo_tools ''B0CJCK8LCJ'' ''0xPAYER'' userInfo) \<noteq> []"
    by (simp add: purchaseProduct_def Let_def js_or_def truthy_def split_js_def js_index_def
        demo_tools_def userInfo_def)
  then obtain r where r: "r \<in> set (snd (purchaseProduct demo_tools ''B0CJCK8LCJ'' ''0xPAYER'' userInfo))"
    using hd_in_set by blast
  have "snd (handleAmazonPurchase (Inr (demo_tools, ''0xPAYER'')) amazonUrl userInfo) \<noteq> []"
    by (simp add: handleAmazonPurchase_def Let_def extractAmazonProductId_def match_here_def
        is_asin_char_def js_or_def truthy_def split_js_def js_index_def
        demo_tools_def demo_tool_def userInfo_def amazonUrl_def)
  then obtain r' where
    r': "r' \<in> set (snd (handleAmazonPurchase (Inr (demo_tools, ''0xPAYER'')) amazonUrl userInfo))"
    using hd_in_set by blast
  from r r' emitted_request_constants [of r demo_tools "''B0CJCK8LCJ''" "''0xPAYER''" userInfo
      r' "Inr (demo_tools, ''0xPAYER'')" amazonUrl userInfo]
  show ?thesis
    by blast
qed

text \<open>
  Claim C3 as stated fails: the request that \<open>purchaseProduct\<close> hands to the tool has no
  \<open>chain\<close> member.
\<close>

theorem chain_absent_counterexample:
  "snd (purchaseProduct demo_tools ''B0CJCK8LCJ'' ''0xPAYER'' userInfo) =
   [\<lparr> recipient =
         \<lparr> email = ''crossmintdemo@gmail.com'',
           physicalAddress =
             \<lparr> name = ''Joyce Lee'', line1 = Some ''1 SE 3rd Ave'', city = Some ''Miami'',
               state = Some ''FL'', postalCode = Some ''33131'', country = ''US'' \<rparr> \<rparr>,
       payment =
         \<lparr> method = ''base'', currency = ''usdc'', payerAddress = ''0xPAYER'', chain = None,
           tokenAddress = None \<rparr>,
       lineItems = [\<lparr> productLocator = ''amazon:B0CJCK8LCJ'' \<rparr>] \<rparr>] \<and>
   chain (payment (hd (snd (purchaseProduct demo_tools ''B0CJCK8LCJ'' ''0xPAYER'' userInfo)))) \<noteq>
     Some ''base''"
  by (simp add: purchaseProduct_def Let_def js_or_def truthy_def formatProductLocator_def
      split_js_def js_index_def demo_tools_def demo_tool_def userInfo_def)

text \<open>
  Claim C4. When the shipping address splits on \<open>", "\<close> into fewer than four parts, no
  request is handed to the tool on either path. \<open>purchaseProduct\<close> fails with the error
  \<open>Invalid shipping address format. Expected: Name, Street, City, State ZIP, Country\<close>
  whatever the tools are, and so does \<open>handleAmazonPurchase\<close> once the tools are
  initialised and the product identifier is extracted, which come first there. The
  message ends with the expected shape.
\<close>

theorem address_too_short:
  assumes "length (split_js (shippingAddress purchaseInfo) '', '') < 4"
  shows "purchaseProduct tools productId walletAddress purchaseInfo =
           (Inl (Error ''Invalid shipping address format. Expected: Name, Street, City, State ZIP, Country''), []) \<and>
         snd (handleAmazonPurchase init url purchaseInfo) = [] \<and>
         (init = Inr (tools', walletAddress') \<and> extractAmazonProductId url = Inr productId' \<longrightarrow>
          handleAmazonPurchase init url purchaseInfo =
            (Inl (Error ''Invalid shipping address format. Expected: Name, Street, City, State ZIP, Country''), [])) \<and>
         suffix ''Name, Street, City, State ZIP, Country''
           ''Invalid shipping address format. Expected: Name, Street, City, State ZIP, Country''"
  using assms
  by (auto simp: purchaseProduct_def handleAmazonPurchase_def suffix_def
      split: sum.splits prod.splits)

theorem address_too_short_witness:
  "length (split_js ''Jane Doe, 1 Rd, Town'' '', '') < 4 \<and>
   extractAmazonProductId amazonUrl = Inr ''B0CJCK8LCJ'' \<and>
   purchaseProduct demo_tools ''B0CJCK8LCJ'' ''0xPAYER''
     \<lparr> info_name = ''Jane Doe'', shippingAddress = ''Jane Doe, 1 Rd, Town'',
       info_email = ''jane@example.com'' \<rparr> =
     (Inl (Error ''Invalid shipping address format. Expected: Name, Street, City, State ZIP, Country''), []) \<and>
   handleAmazonPurchase (Inr (demo_tools, ''0xPAYER'')) amazonUrl
     \<lparr> info_name = ''Jane Doe'', shippingAddress = ''Jane Doe, 1 Rd, Town'',
       info_email = ''jane@example.com'' \<rparr> =
     (Inl (Error ''Invalid shipping address format. Expected: Name, Street, City, State ZIP, Country''), [])"
proof -
  have h: "length (split_js (shippingAddress
      \<lparr> info_name = ''Jane Doe'', shippingAddress = ''Jane Doe, 1 Rd, Town'',
        info_email = ''jane@example.com'' \<rparr>) '', '') < 4"
    by (simp add: split_js_def)
  have ex: "extractAmazonProductId amazonUrl = Inr ''B0CJCK8LCJ''"
    by (simp add: amazonUrl_def extractAmazonProductId_def match_here_def is_asin_char_def
        js_or_def truthy_def)
  from address_too_short [OF h, of demo_tools "''B0CJCK8LCJ''" "''0xPAYER''"
      "Inr (demo_tools, ''0xPAYER'')" amazonUrl demo_tools "''0xPAYER''" "''B0CJCK8LCJ''"] h ex
  show ?thesis
    by simp
qed

text \<open>
  Claim C5. For the shipping address \<open>Joyce Lee, 1 SE 3rd Ave, Miami, FL 33131, US\<close> and
  tools that have a \<open>buy_token\<close> property, \<open>purchaseProduct\<close> hands exactly one request to the
  tool and returns what the tool answers. The request has \<open>line1 = 1 SE 3rd Ave\<close>,
  \<open>city = Miami\<close>, \<open>state = FL\<close>, \<open>postalCode = 33131\<close> and \<open>country = US\<close>.
\<close>

theorem joyce_lee_request:
  assumes "map_of props ''buy_token'' = Some buy_token"
  shows "purchaseProduct (Object props) productId walletAddress
           \<lparr> info_name = n, shippingAddress = ''Joyce Lee, 1 SE 3rd Ave, Miami, FL 33131, US'',
             info_email = e \<rparr> =
         (invoke buy_token
            \<lparr> recipient =
                \<lparr> email = e,
                  physicalAddress =
                    \<lparr> name = n, line1 = Some ''1 SE 3rd Ave'', city = Some ''Miami'',
                      state = Some ''FL'', postalCode = Some ''33131'', country = ''US'' \<rparr> \<rparr>,
              payment =
                \<lparr> method = ''base'', currency = ''usdc'', payerAddress = walletAddress,
                  chain = None, tokenAddress = None \<rparr>,
              lineItems = [\<lparr> productLocator = ''amazon:'' @ productId \<rparr>] \<rparr>,
          [\<lparr> recipient =
                \<lparr> email = e,
                  physicalAddress =
                    \<lparr> name = n, line1 = Some ''1 SE 3rd Ave'', city = Some ''Miami'',
                      state = Some ''FL'', postalCode = Some ''33131'', country = ''US'' \<rparr> \<rparr>,
              payment =
                \<lparr> method = ''base'', currency = ''usdc'', payerAddress = walletAddress,
                  chain = None, tokenAddress = None \<rparr>,
              lineItems = [\<lparr> productLocator = ''amazon:'' @ productId \<rparr>] \<rparr>])"
  using assms
  by (simp add: purchaseProduct_def Let_def js_or_def truthy_def formatProductLocator_def
      split_js_def js_index_def)

theorem joyce_lee_request_witness:
  "map_of [(''get_balance'', demo_tool), (''buy_token'', demo_tool)] ''buy_token'' = Some demo_tool \<and>
   purchaseProduct demo_tools ''B0CJCK8LCJ'' ''0xPAYER'' userInfo =
     (Inr (Some ''order''),
      [\<lparr> recipient =
           \<lparr> email = ''crossmintdemo@gmail.com'',
             physicalAddress =
               \<lparr> name = ''Joyce Lee'', line1 = Some ''1 SE 3rd Ave'', city = Some ''Miami'',
                 state = Some ''FL'', postalCode = Some ''33131'', country = ''US'' \<rparr> \<rparr>,
         payment =
           \<lparr> method = ''base'', currency = ''usdc'', payerAddress = ''0xPAYER'',
             chain = None, tokenAddress = None \<rparr>,
         lineItems = [\<lparr> productLocator = ''amazon:B0CJCK8LCJ'' \<rparr>] \<rparr>])"
proof -
  have h: "map_of [(''get_balance'', demo_tool), (''buy_token'', demo_tool)] ''buy_token'' =
      Some demo_tool"
    by simp
  from joyce_lee_request [OF h, of "''B0CJCK8LCJ''" "''0xPAYER''" "''Joyce Lee''"
      "''crossmintdemo@gmail.com''"] h
  show ?thesis
    by (simp add: demo_tools_def userInfo_def demo_tool_def)
qed

text \<open>
  Claim C6. When the shipping address splits on \<open>", "\<close> into exactly four parts and the
  tools have a \<open>buy_token\<close> property, the country defaults to \<open>US\<close> and \<open>purchaseProduct\<close>
  hands one request to the tool, with the country \<open>US\<close>, the second part as street and the
  third as city. The address \<open>Joyce Lee, 123 Main St, Anytown, CA 12345\<close> is such an
  address.
\<close>

theorem four_parts_accepted:
  assumes "length (split_js (shippingAddress purchaseInfo) '', '') = 4"
    and "map_of props ''buy_token'' = Some buy_token"
  shows "js_or (js_index (split_js (shippingAddress purchaseInfo) '', '') 4) (Some ''US'') =
           Some ''US'' \<and>
         (\<exists>req. purchaseProduct (Object props) productId walletAddress purchaseInfo =
                  (invoke buy_token req, [req]) \<and>
                country (physicalAddress (recipient req)) = ''US'' \<and>
                line1 (physicalAddress (recipient req)) =
                  Some (split_js (shippingAddress purchaseInfo) '', '' ! 1) \<and>
                city (physicalAddress (recipient req)) =
                  Some (split_js (shippingAddress purchaseInfo) '', '' ! 2))"
  using assms
  by (simp add: purchaseProduct_def Let_def js_or_def truthy_def js_index_def)

theorem four_parts_accepted_witness:
  "length (split_js ''Joyce Lee, 123 Main St, Anytown, CA 12345'' '', '') = 4 \<and>
   (\<exists>req. purchaseProduct demo_tools ''B0CJCK8LCJ'' ''0xPAYER''
            \<lparr> info_name = ''Joyce Lee'',
              shippingAddress = ''Joyce Lee, 123 Main St, Anytown, CA 12345'',
              info_email = ''crossmintdemo@gmail.com'' \<rparr> =
          (Inr (Some ''order''), [req]) \<and>
          country (physicalAddress (recipient req)) = ''US'' \<and>
          line1 (physicalAddress (recipient req)) = Some ''123 Main St'' \<and>
          city (physicalAddress (recipient req)) = Some ''Anytown'')"
proof -
  have s: "split_js ''Joyce Lee, 123 Main St, Anytown, CA 12345'' '', '' =
      [''Joyce Lee'', ''123 Main St'', ''Anytown'', ''CA 12345'']"
    by (simp add: split_js_def)
  have h: "length (split_js (shippingAddress
      \<lparr> info_name = ''Joyce Lee'',
        shippingAddress = ''Joyce Lee, 123 Main St, Anytown, CA 12345'',
        info_email = ''crossmintdemo@gmail.com'' \<rparr>) '', '') = 4"
    by (simp add: s)
  have m: "map_of [(''get_balance'', demo_tool), (''buy_token'', demo_tool)] ''buy_token'' =
      Some demo_tool"
    by simp
  from four_parts_accepted [OF h m, of "''B0CJCK8LCJ''" "''0xPAYER''"] s
  show ?thesis
    by (simp add: demo_tools_def demo_tool_def)
qed

text \<open>Claim C7. \<open>formatProductLocator\<close> returns \<open>amazon:\<close> followed by its argument, unchanged.\<close>

theorem formatProductLocator_concat: "formatProductLocator ref = ''amazon:'' @ ref"
  by (simp add: formatProductLocator_def)

text \<open>
  Claim C8, as amended. \<open>formatProductLocator\<close> is not idempotent: applied twice it
  puts the prefix twice, and the result differs from that of one application for every
  argument.
\<close>

theorem formatProductLocator_twice:
  "formatProductLocator (formatProductLocator x) = ''amazon:amazon:'' @ x \<and>
   formatProductLocator (formatProductLocator x) \<noteq> formatProductLocator x"
  by (simp add: formatProductLocator_def)

text \<open>Claim C8 as stated fails at the product identifier \<open>B08SVZ775L\<close>.\<close>

theorem idempotent_counterexample:
  "formatProductLocator (formatProductLocator ''B08SVZ775L'') = ''amazon:amazon:B08SVZ775L'' \<and>
   formatProductLocator ''B08SVZ775L'' = ''amazon:B08SVZ775L'' \<and>
   formatProductLocator (formatProductLocator ''B08SVZ775L'') \<noteq> formatProductLocator ''B08SVZ775L''"
  by (simp add: formatProductLocator_def)

text \<open>
  Claim C9. The first part of the shipping address has no influence: two calls of
  \<open>purchaseProduct\<close> whose inputs agree except in the first part of the address (the
  other parts, the contact name and the email are the same) have the same result and hand
  the same requests to the tool. The name in every request is the contact name.
\<close>

theorem name_segment_unused:
  assumes "tl (split_js (shippingAddress info1) '', '') = tl (split_js (shippingAddress info2) '', '')"
    and "info_name info1 = info_name info2" and "info_email info1 = info_email info2"
  shows "purchaseProduct tools productId walletAddress info1 =
           purchaseProduct tools productId walletAddress info2 \<and>
         (req \<in> set (snd (purchaseProduct tools productId walletAddress info1)) \<longrightarrow>
            name (physicalAddress (recipient req)) = info_name info1)"
proof -
  obtain p1 r1 where s1: "split_js (shippingAddress info1) '', '' = p1 # r1"
    using split_js_not_Nil [of "'', ''" "shippingAddress info1"] by (auto simp: neq_Nil_conv)
  obtain p2 r2 where s2: "split_js (shippingAddress info2) '', '' = p2 # r2"
    using split_js_not_Nil [of "'', ''" "shippingAddress info2"] by (auto simp: neq_Nil_conv)
  from assms(1) s1 s2 have r: "r2 = r1"
    by simp
  have eq: "purchaseProduct tools productId walletAddress info1 =
      purchaseProduct tools productId walletAddress info2"
    unfolding purchaseProduct_def s1 s2 r using assms(2,3)
    by (auto simp: js_index_def Let_def split: js_tools.splits option.splits)
  have "req \<in> set (snd (purchaseProduct tools productId walletAddress info1)) \<longrightarrow>
      name (physicalAddress (recipient req)) = info_name info1"
    by (auto simp: purchaseProduct_def Let_def split: if_splits js_tools.splits option.splits)
  with eq show ?thesis
    by simp
qed

theorem name_segment_unused_witness:
  "tl (split_js (shippingAddress userInfo) '', '') =
     tl (split_js ''Someone Else, 1 SE 3rd Ave, Miami, FL 33131, US'' '', '') \<and>
   purchaseProduct demo_tools ''B0CJCK8LCJ'' ''0xPAYER'' userInfo =
     purchaseProduct demo_tools ''B0CJCK8LCJ'' ''0xPAYER''
       (userInfo \<lparr> shippingAddress := ''Someone Else, 1 SE 3rd Ave, Miami, FL 33131, US'' \<rparr>) \<and>
   (\<exists>req. req \<in> set (snd (purchaseProduct demo_tools ''B0CJCK8LCJ'' ''0xPAYER'' userInfo)) \<and>
      name (physicalAddress (recipient req)) = ''Joyce Lee'')"
proof -
  let ?info2 = "userInfo \<lparr> shippingAddress := ''Someone Else, 1 SE 3rd Ave, Miami, FL 33131, US'' \<rparr>"
  have t: "tl (split_js (shippingAddress userInfo) '', '') =
      tl (split_js ''Someone Else, 1 SE 3rd Ave, Miami, FL 33131, US'' '', '')"
    by (simp add: userInfo_def split_js_def)
  then have h: "tl (split_js (shippingAddress userInfo) '', '') =
      tl (split_js (shippingAddress ?info2) '', '')"
    by simp
  have n: "info_name userInfo = info_name ?info2" and e: "info_email userInfo = info_email ?info2"
    by simp_all
  have "snd (purchaseProduct demo_tools ''B0CJCK8LCJ'' ''0xPAYER'' userInfo) \<noteq> []"
    by (simp add: purchaseProduct_def Let_def js_or_def truthy_def split_js_def js_index_def
        demo_tools_def userInfo_def)
  then obtain r where r: "r \<in> set (snd (purchaseProduct demo_tools ''B0CJCK8LCJ'' ''0xPAYER'' userInfo))"
    using hd_in_set by blast
  have "info_name userInfo = ''Joyce Lee''"
    by (simp add: userInfo_def)
  with name_segment_unused [OF h n e, of demo_tools "''B0CJCK8LCJ''" "''0xPAYER''" r] r t
  show ?thesis
    by auto
qed

text \<open>
  Claim C10. When the fourth part of the shipping address contains no space, nothing fails
  for that reason: on both paths the request handed to the tool has the whole fourth part
  as its state and no postal code. (\<open>purchaseProduct\<close> still applies its country gate, and
  \<open>handleAmazonPurchase\<close> still needs a product identifier.)
\<close>

theorem state_zip_without_space:
  assumes "4 \<le> length (split_js (shippingAddress purchaseInfo) '', '')"
    and "CHR '' '' \<notin> set (split_js (shippingAddress purchaseInfo) '', '' ! 3)"
    and "map_of props ''buy_token'' = Some buy_token"
  shows "(js_or (js_index (split_js (shippingAddress purchaseInfo) '', '') 4) (Some ''US'') =
            Some ''US'' \<longrightarrow>
          (\<exists>req. purchaseProduct (Object props) productId walletAddress purchaseInfo =
                   (invoke buy_token req, [req]) \<and>
                 state (physicalAddress (recipient req)) =
                   Some (split_js (shippingAddress purchaseInfo) '', '' ! 3) \<and>
                 postalCode (physicalAddress (recipient req)) = None)) \<and>
         (extractAmazonProductId url = Inr productId' \<longrightarrow>
          (\<exists>req. snd (handleAmazonPurchase (Inr (Object props, walletAddress)) url purchaseInfo) =
                   [req] \<and>
                 state (physicalAddress (recipient req)) =
                   Some (split_js (shippingAddress purchaseInfo) '', '' ! 3) \<and>
                 postalCode (physicalAddress (recipient req)) = None))"
proof -
  have sz: "split_js (split_js (shippingAddress purchaseInfo) '', '' ! 3) '' '' =
      [split_js (shippingAddress purchaseInfo) '', '' ! 3]"
    using assms(2) by (rule split_js_no_separator)
  show ?thesis
    using assms(1,3)
    by (auto simp: purchaseProduct_def handleAmazonPurchase_def Let_def sz js_index_def
        split: sum.splits option.splits)
qed

theorem state_zip_without_space_witness:
  "split_js ''Jane Doe, 1 Rd, Town, CA12345'' '', '' = [''Jane Doe'', ''1 Rd'', ''Town'', ''CA12345''] \<and>
   CHR '' '' \<notin> set ''CA12345'' \<and>
   (\<exists>req. purchaseProduct demo_tools ''B0CJCK8LCJ'' ''0xPAYER''
            \<lparr> info_name = ''Jane Doe'', shippingAddress = ''Jane Doe, 1 Rd, Town, CA12345'',
              info_email = ''jane@example.com'' \<rparr> =
          (Inr (Some ''order''), [req]) \<and>
          state (physicalAddress (recipient req)) = Some ''CA12345'' \<and>
          postalCode (physicalAddress (recipient req)) = None) \<and>
   (\<exists>req. snd (handleAmazonPurchase (Inr (demo_tools, ''0xPAYER'')) amazonUrl
            \<lparr> info_name = ''Jane Doe'', shippingAddress = ''Jane Doe, 1 Rd, Town, CA12345'',
              info_email = ''jane@example.com'' \<rparr>) = [req] \<and>
          state (physicalAddress (recipient req)) = Some ''CA12345'' \<and>
          postalCode (physicalAddress (recipient req)) = None)"
proof -
  let ?info = "\<lparr> info_name = ''Jane Doe'', shippingAddress = ''Jane Doe, 1 Rd, Town, CA12345'',
      info_email = ''jane@example.com'' \<rparr>"
  have s: "split_js ''Jane Doe, 1 Rd, Town, CA12345'' '', '' =
      [''Jane Doe'', ''1 Rd'', ''Town'', ''CA12345'']"
    by (simp add: split_js_def)
  have h1: "4 \<le> length (split_js (shippingAddress ?info) '', '')"
    by (simp add: s)
  have h2: "CHR '' '' \<notin> set (split_js (shippingAddress ?info) '', '' ! 3)"
    by (simp add: s)
  have m: "map_of [(''get_balance'', demo_tool), (''buy_token'', demo_tool)] ''buy_token'' =
      Some demo_tool"
    by simp
  have ex: "extractAmazonProductId amazonUrl = Inr ''B0CJCK8LCJ''"
    by (simp add: amazonUrl_def extractAmazonProductId_def match_here_def is_asin_char_def
        js_or_def truthy_def)
  have gate: "js_or (js_index (split_js (shippingAddress ?info) '', '') 4) (Some ''US'') = Some ''US''"
    by (simp add: s js_or_def truthy_def js_index_def)
  from state_zip_without_space [OF h1 h2 m, of "''B0CJCK8LCJ''" "''0xPAYER''" amazonUrl
      "''B0CJCK8LCJ''"] ex gate s
  show ?thesis
    by (simp add: demo_tools_def demo_tool_def)
qed

end
